theory Spec2Isabelle
  imports Complex_Main
begin

section \<open>The Beat Bakery: pattern store, combiner and playback controller\<close>

text \<open>
  The application is one React component, \<^verbatim>\<open>App\<close>, whose state is five \<^verbatim>\<open>useState\<close>
  cells and two \<^verbatim>\<open>useRef\<close> cells, and whose operations are the callbacks
  \<^verbatim>\<open>createAndPlayPattern\<close>, \<^verbatim>\<open>playAll\<close>, \<^verbatim>\<open>stopAll\<close>, \<^verbatim>\<open>addPattern\<close>,
  \<^verbatim>\<open>removePattern\<close> and \<^verbatim>\<open>updatePattern\<close>. The audio engine (\<^verbatim>\<open>@strudel/web\<close>) is
  external: it is a parameter of the model.

  JavaScript strings are modelled as \<^typ>\<open>string\<close>, one \<^typ>\<open>char\<close> per code unit
  (code units below 256). JavaScript numbers are modelled as \<^typ>\<open>real\<close>, except the
  counter \<^verbatim>\<open>nextId\<close>, which starts at 3 and is only ever incremented by one: it is a
  \<^typ>\<open>nat\<close> (the increments are exact in double precision below \<open>2\<^sup>5\<^sup>3\<close>).
\<close>

subsection \<open>Strings\<close>

text \<open>
  \<^verbatim>\<open>String.prototype.trim\<close> removes white space and line terminators from both ends.
  Among the code units below 256 these are TAB, LF, VT, FF, CR, SP and NBSP.
\<close>

definition isWhiteSpace :: "char \<Rightarrow> bool" where
  "isWhiteSpace c = (of_char c \<in> {9, 10, 11, 12, 13, 32, 160 :: nat})"

definition trim :: "string \<Rightarrow> string" where
  "trim str = rev (dropWhile isWhiteSpace (rev (dropWhile isWhiteSpace str)))"

text \<open>A string used as a condition is true exactly when it is not empty.\<close>

definition truthy :: "string \<Rightarrow> bool" where
  "truthy str = (str \<noteq> [])"

text \<open>\<^verbatim>\<open>Array.prototype.join(sep)\<close> on an array of strings.\<close>

fun join :: "string \<Rightarrow> string list \<Rightarrow> string" where
  "join sep [] = []"
| "join sep [x] = x"
| "join sep (x # y # ys) = x @ sep @ join sep (y # ys)"

text \<open>
  \<^verbatim>\<open>Number.prototype.toString\<close> on a non-negative integer: its decimal digits
  (JavaScript switches to exponent notation only from \<open>10\<^sup>2\<^sup>1\<close> on).
\<close>

definition digit_char :: "nat \<Rightarrow> char" where
  "digit_char d = ''0123456789'' ! d"

fun toString :: "nat \<Rightarrow> string" where
  "toString n = (if n < 10 then [digit_char n] else toString (n div 10) @ [digit_char (n mod 10)])"

declare toString.simps [simp del]

subsection \<open>Data model\<close>

text \<open>\<^verbatim>\<open>interface PatternInput { id: string; pattern: string; name: string }\<close>\<close>

record PatternInput =
  id_p :: string
  pattern :: string
  name :: string

text \<open>\<^verbatim>\<open>keyof PatternInput\<close>, the second argument of \<^verbatim>\<open>updatePattern\<close>.\<close>

datatype field = Field_id | Field_pattern | Field_name

text \<open>
  The component state. \<open>'h\<close> is the type of the engine's compiled pattern objects;
  \<^verbatim>\<open>null\<close> is \<open>None\<close>. \<^verbatim>\<open>volume\<close> is the slider's value array; \<^verbatim>\<open>volumeRef\<close>
  holds \<^verbatim>\<open>volume[0]\<close>, which is \<^verbatim>\<open>undefined\<close> (\<open>None\<close>) for an empty array.
\<close>

record 'h app_state =
  patterns :: "PatternInput list"
  volume :: "real list"
  nextId :: nat
  isPlaying :: bool
  combinedPattern :: "'h option"
  patternsRef :: "PatternInput list"
  volumeRef :: "real option"

subsection \<open>The external engine and the effects of a callback\<close>

text \<open>A thrown JavaScript value.\<close>

datatype js_error = Thrown string

text \<open>
  The calls into \<^verbatim>\<open>@strudel/web\<close> that the source guards with \<^verbatim>\<open>try\<close>/\<^verbatim>\<open>catch\<close>
  (\<^verbatim>\<open>s(text)\<close>, \<^verbatim>\<open>combined.gain(v)\<close>, \<^verbatim>\<open>pattern.play()\<close>) either return or throw.
  \<^verbatim>\<open>combinedPattern.stop?.()\<close> calls \<^verbatim>\<open>stop\<close> only on an object that has one
  (\<open>has_stop\<close>); the source puts no handler around it nor around \<^verbatim>\<open>hush()\<close>, and the
  model takes both to return normally. Compiled pattern objects are objects, hence
  true as conditions.
\<close>

record 'h engine =
  s_fn :: "string \<Rightarrow> js_error + 'h"
  gain :: "'h \<Rightarrow> real option \<Rightarrow> js_error + 'h"
  play :: "'h \<Rightarrow> js_error + unit"
  has_stop :: "'h \<Rightarrow> bool"

text \<open>
  What a callback does besides computing a value, in order: calls into the engine,
  \<^verbatim>\<open>alert\<close>, \<^verbatim>\<open>console.error\<close>, and calls of the state setters. A setter call does not
  change what the running callback reads; React applies the queued updates afterwards.
\<close>

datatype 'h effect =
    Call_s string
  | Call_gain 'h "real option"
  | Call_play 'h
  | Call_stop 'h
  | Call_hush
  | Alert string
  | Console_error string
  | SetPatterns "PatternInput list"
  | SetVolume "real list"
  | SetNextId nat
  | SetIsPlaying bool
  | SetCombinedPattern "'h option"

text \<open>
  A computation yields the effects it performed and either a thrown error (\<open>Inl\<close>) or
  its value (\<open>Inr\<close>). \<open>js_bind\<close> is sequencing: an error skips what follows.
  \<open>try_catch\<close> runs the handler on an error.
\<close>

type_synonym ('h, 'a) js = "'h effect list \<times> (js_error + 'a)"

definition js_return :: "'a \<Rightarrow> ('h, 'a) js" where
  "js_return x = ([], Inr x)"

definition js_bind :: "('h, 'a) js \<Rightarrow> ('a \<Rightarrow> ('h, 'b) js) \<Rightarrow> ('h, 'b) js" where
  "js_bind c f =
     (case c of
        (fx, Inl e) \<Rightarrow> (fx, Inl e)
      | (fx, Inr x) \<Rightarrow> (case f x of (fx', r) \<Rightarrow> (fx @ fx', r)))"

definition try_catch :: "('h, 'a) js \<Rightarrow> (js_error \<Rightarrow> ('h, 'a) js) \<Rightarrow> ('h, 'a) js" where
  "try_catch c handler =
     (case c of
        (fx, Inl e) \<Rightarrow> (case handler e of (fx', r) \<Rightarrow> (fx @ fx', r))
      | (fx, Inr x) \<Rightarrow> (fx, Inr x))"

definition perform :: "'h effect \<Rightarrow> ('h, unit) js" where
  "perform ev = ([ev], Inr ())"

definition call_s :: "'h engine \<Rightarrow> string \<Rightarrow> ('h, 'h) js" where
  "call_s eng str = ([Call_s str], s_fn eng str)"

definition call_gain :: "'h engine \<Rightarrow> 'h \<Rightarrow> real option \<Rightarrow> ('h, 'h) js" where
  "call_gain eng h v = ([Call_gain h v], gain eng h v)"

definition call_play :: "'h engine \<Rightarrow> 'h \<Rightarrow> ('h, unit) js" where
  "call_play eng h = ([Call_play h], play eng h)"

text \<open>\<^verbatim>\<open>h.stop?.()\<close>\<close>

definition call_stop_opt :: "'h engine \<Rightarrow> 'h \<Rightarrow> ('h, unit) js" where
  "call_stop_opt eng h = (if has_stop eng h then perform (Call_stop h) else js_return ())"

subsection \<open>The callbacks\<close>

text \<open>
  \<^verbatim>\<open>
  const createAndPlayPattern = useCallback(() => {
    const validPatterns = patternsRef.current.filter(p => p.pattern.trim())
    if (validPatterns.length === 0) return null
    try {
      let combined
      if (validPatterns.length === 1) {
        combined = s(validPatterns[0].pattern)
      } else {
        const patternStrings = validPatterns.map(p => p.pattern)
        combined = s(patternStrings.join(', '))
      }
      const finalPattern = combined.gain(volumeRef.current)
      return finalPattern
    } catch (error) {
      console.error('Error creating pattern:', error)
      return null
    }
  }, [])
  \<close>
\<close>

definition createAndPlayPattern :: "'h engine \<Rightarrow> 'h app_state \<Rightarrow> ('h, 'h option) js" where
  "createAndPlayPattern eng st =
     (let validPatterns = filter (\<lambda>p. truthy (trim (pattern p))) (patternsRef st) in
      if length validPatterns = 0 then js_return None
      else
        try_catch
          (js_bind
             (if length validPatterns = 1 then call_s eng (pattern (validPatterns ! 0))
              else (let patternStrings = map pattern validPatterns
                    in call_s eng (join '', '' patternStrings)))
             (\<lambda>combined.
                js_bind (call_gain eng combined (volumeRef st))
                  (\<lambda>finalPattern. js_return (Some finalPattern))))
          (\<lambda>error.
             js_bind (perform (Console_error ''Error creating pattern:''))
               (\<lambda>_. js_return None)))"

text \<open>
  \<^verbatim>\<open>
  const playAll = useCallback(() => {
    const pattern = createAndPlayPattern()
    if (!pattern) {
      alert('No valid patterns to play')
      return
    }
    try {
      pattern.play()
      setCombinedPattern(pattern)
      setIsPlaying(true)
    } catch (error) {
      console.error('Error playing patterns:', error)
      alert('Error playing patterns. Please check your syntax.')
    }
  }, [createAndPlayPattern])
  \<close>
\<close>

definition playAll :: "'h engine \<Rightarrow> 'h app_state \<Rightarrow> ('h, unit) js" where
  "playAll eng st =
     js_bind (createAndPlayPattern eng st)
       (\<lambda>created.
          case created of
            None \<Rightarrow> perform (Alert ''No valid patterns to play'')
          | Some h \<Rightarrow>
              try_catch
                (js_bind (call_play eng h)
                   (\<lambda>_. js_bind (perform (SetCombinedPattern (Some h)))
                      (\<lambda>_. perform (SetIsPlaying True))))
                (\<lambda>error.
                   js_bind (perform (Console_error ''Error playing patterns:''))
                     (\<lambda>_. perform (Alert ''Error playing patterns. Please check your syntax.''))))"

text \<open>
  \<^verbatim>\<open>
  const stopAll = useCallback(() => {
    if (combinedPattern) {
      combinedPattern.stop?.()
    }
    hush()
    setIsPlaying(false)
    setCombinedPattern(null)
  }, [combinedPattern])
  \<close>
\<close>

definition stopAll :: "'h engine \<Rightarrow> 'h app_state \<Rightarrow> ('h, unit) js" where
  "stopAll eng st =
     js_bind (case combinedPattern st of
                Some h \<Rightarrow> call_stop_opt eng h
              | None \<Rightarrow> js_return ())
       (\<lambda>_. js_bind (perform Call_hush)
          (\<lambda>_. js_bind (perform (SetIsPlaying False))
             (\<lambda>_. perform (SetCombinedPattern None))))"

text \<open>
  \<^verbatim>\<open>
  const addPattern = useCallback(() => {
    const newPattern: PatternInput = {
      id: nextId.toString(),
      pattern: '',
      name: `Pattern ${nextId}`
    }
    setPatterns([...patterns, newPattern])
    setNextId(nextId + 1)
  }, [nextId, patterns])
  \<close>
\<close>

definition addPattern :: "'h app_state \<Rightarrow> ('h, unit) js" where
  "addPattern st =
     (let newPattern = \<lparr> id_p = toString (nextId st),
                          pattern = '''',
                          name = ''Pattern '' @ toString (nextId st) \<rparr>
      in js_bind (perform (SetPatterns (patterns st @ [newPattern])))
           (\<lambda>_. perform (SetNextId (nextId st + 1))))"

text \<open>
  \<^verbatim>\<open>
  const removePattern = useCallback((id: string) => {
    if (isPlaying) {
      stopAll()
    }
    setPatterns(patterns.filter(p => p.id !== id))
  }, [isPlaying, patterns, stopAll])
  \<close>
\<close>

definition removePattern :: "'h engine \<Rightarrow> string \<Rightarrow> 'h app_state \<Rightarrow> ('h, unit) js" where
  "removePattern eng i st =
     js_bind (if isPlaying st then stopAll eng st else js_return ())
       (\<lambda>_. perform (SetPatterns (filter (\<lambda>p. id_p p \<noteq> i) (patterns st))))"

text \<open>
  \<^verbatim>\<open>
  const updatePattern = useCallback((id: string, field: keyof PatternInput, value: string) => {
    setPatterns(patterns.map(p => p.id === id ? { ...p, [field]: value } : p))
  }, [patterns])
  \<close>
\<close>

fun set_field :: "field \<Rightarrow> string \<Rightarrow> PatternInput \<Rightarrow> PatternInput" where
  "set_field Field_id v p = p\<lparr>id_p := v\<rparr>"
| "set_field Field_pattern v p = p\<lparr>pattern := v\<rparr>"
| "set_field Field_name v p = p\<lparr>name := v\<rparr>"

definition updatePattern :: "string \<Rightarrow> field \<Rightarrow> string \<Rightarrow> 'h app_state \<Rightarrow> ('h, unit) js" where
  "updatePattern i fld v st =
     perform (SetPatterns (map (\<lambda>p. if id_p p = i then set_field fld v p else p) (patterns st)))"

subsection \<open>From one render to the next\<close>

text \<open>
  After a callback has run, React applies the queued setter calls in order, renders,
  and runs the two effects that copy the state into the refs:
  \<^verbatim>\<open>patternsRef.current = patterns\<close> and \<^verbatim>\<open>volumeRef.current = volume[0]\<close>.
\<close>

fun apply_effect :: "'h effect \<Rightarrow> 'h app_state \<Rightarrow> 'h app_state" where
  "apply_effect (SetPatterns ps) st = st\<lparr>patterns := ps\<rparr>"
| "apply_effect (SetVolume vs) st = st\<lparr>volume := vs\<rparr>"
| "apply_effect (SetNextId n) st = st\<lparr>nextId := n\<rparr>"
| "apply_effect (SetIsPlaying b) st = st\<lparr>isPlaying := b\<rparr>"
| "apply_effect (SetCombinedPattern h) st = st\<lparr>combinedPattern := h\<rparr>"
| "apply_effect _ st = st"

definition apply_updates :: "'h effect list \<Rightarrow> 'h app_state \<Rightarrow> 'h app_state" where
  "apply_updates fx st = fold apply_effect fx st"

definition run_effects :: "'h app_state \<Rightarrow> 'h app_state" where
  "run_effects st =
     st\<lparr>patternsRef := patterns st,
        volumeRef := (case volume st of [] \<Rightarrow> None | v # _ \<Rightarrow> Some v)\<rparr>"

definition dispatch :: "('h app_state \<Rightarrow> ('h, unit) js) \<Rightarrow> 'h app_state \<Rightarrow> 'h app_state" where
  "dispatch callback st = run_effects (apply_updates (fst (callback st)) st)"

text \<open>The state of the first render.\<close>

definition initial_state :: "'h app_state" where
  "initial_state =
     \<lparr> patterns = [\<lparr> id_p = ''1'', pattern = ''bd sd [~ bd] sd'', name = ''Kick & Snare'' \<rparr>,
                   \<lparr> id_p = ''2'', pattern = ''hh*8'', name = ''Hi-hats'' \<rparr>],
       volume = [0.7],
       nextId = 3,
       isPlaying = False,
       combinedPattern = None,
       patternsRef = [\<lparr> id_p = ''1'', pattern = ''bd sd [~ bd] sd'', name = ''Kick & Snare'' \<rparr>,
                      \<lparr> id_p = ''2'', pattern = ''hh*8'', name = ''Hi-hats'' \<rparr>],
       volumeRef = Some 0.7 \<rparr>"

text \<open>
  The user interface: what the page lets the user do in a state. The play button is
  disabled while playing or when no entry has text left after trimming, the stop button
  while not playing; the delete button and the two inputs of a card act on that card's
  entry; the inputs call \<^verbatim>\<open>updatePattern\<close> with \<^verbatim>\<open>'name'\<close> or \<^verbatim>\<open>'pattern'\<close> only;
  the slider calls \<^verbatim>\<open>setVolume\<close>. The engine may answer differently at every call.
\<close>

inductive reachable :: "'h app_state \<Rightarrow> bool" where
  init: "reachable initial_state"
| click_play:
    "reachable st \<Longrightarrow>
     \<not> (isPlaying st \<or> length (filter (\<lambda>p. truthy (trim (pattern p))) (patterns st)) = 0) \<Longrightarrow>
     reachable (dispatch (playAll eng) st)"
| click_stop:
    "reachable st \<Longrightarrow> isPlaying st \<Longrightarrow> reachable (dispatch (stopAll eng) st)"
| click_add:
    "reachable st \<Longrightarrow> reachable (dispatch addPattern st)"
| click_remove:
    "reachable st \<Longrightarrow> p \<in> set (patterns st) \<Longrightarrow>
     reachable (dispatch (removePattern eng (id_p p)) st)"
| edit_name:
    "reachable st \<Longrightarrow> p \<in> set (patterns st) \<Longrightarrow>
     reachable (dispatch (updatePattern (id_p p) Field_name v) st)"
| edit_pattern:
    "reachable st \<Longrightarrow> p \<in> set (patterns st) \<Longrightarrow>
     reachable (dispatch (updatePattern (id_p p) Field_pattern v) st)"
| slide_volume:
    "reachable st \<Longrightarrow> reachable (dispatch (\<lambda>_. perform (SetVolume vs)) st)"


text \<open>
  The text handed to \<^verbatim>\<open>s\<close> by \<^verbatim>\<open>createAndPlayPattern\<close> (the argument of either
  branch of its inner conditional), as a function of the list it reads.
\<close>

definition combinedText :: "PatternInput list \<Rightarrow> string" where
  "combinedText ps =
     (let validPatterns = filter (\<lambda>p. truthy (trim (pattern p))) ps in
      if length validPatterns = 1 then pattern (validPatterns ! 0)
      else join '', '' (map pattern validPatterns))"

text \<open>
  What compiling the text \<open>str\<close> and applying the gain amounts to: \<^verbatim>\<open>s(str)\<close> is called;
  if it returns, \<^verbatim>\<open>gain(volumeRef.current)\<close> is called on its result, and what that
  returns is the value; an error of either call is logged and the value is \<^verbatim>\<open>null\<close>.
\<close>

definition compiles_with_gain :: "'h engine \<Rightarrow> 'h app_state \<Rightarrow> string \<Rightarrow> bool" where
  "compiles_with_gain eng st str =
     (createAndPlayPattern eng st =
        (case s_fn eng str of
           Inl e \<Rightarrow> ([Call_s str, Console_error ''Error creating pattern:''], Inr None)
         | Inr combined \<Rightarrow>
             (case gain eng combined (volumeRef st) of
                Inl e \<Rightarrow> ([Call_s str, Call_gain combined (volumeRef st),
                           Console_error ''Error creating pattern:''], Inr None)
              | Inr finalPattern \<Rightarrow>
                  ([Call_s str, Call_gain combined (volumeRef st)], Inr (Some finalPattern)))))"

text \<open>The invariant of the playback session: a set flag comes with a session handle.\<close>

definition session_inv :: "'h app_state \<Rightarrow> bool" where
  "session_inv st = (isPlaying st \<longrightarrow> combinedPattern st \<noteq> None)"

text \<open>
  Every id in the list is the decimal numeral of a number below the counter: the
  invariant that keeps a newly generated id apart from the ids in use.
\<close>

definition ids_below :: "'h app_state \<Rightarrow> bool" where
  "ids_below st = (\<forall>p\<in>set (patterns st). \<exists>k<nextId st. id_p p = toString k)"

text \<open>
  The combiner as the specification words it: the entries whose text is not empty;
  one of them is compiled as it is, several are joined.
\<close>

definition spec_nonEmpty :: "PatternInput list \<Rightarrow> PatternInput list" where
  "spec_nonEmpty ps = filter (\<lambda>p. pattern p \<noteq> []) ps"

definition spec_combinedText :: "PatternInput list \<Rightarrow> string" where
  "spec_combinedText ps =
     (if length (spec_nonEmpty ps) = 1 then pattern (spec_nonEmpty ps ! 0)
      else join '', '' (map pattern (spec_nonEmpty ps)))"

section \<open>The visualizer\<close>

text \<open>
  \<^verbatim>\<open>interface PunchcardData { time: number; value: string; name?: string }\<close>
\<close>

record PunchcardData =
  time_e :: real
  value_e :: string
  name_e :: "string option"

text \<open>
  The canvas context is written to, never read: the routine is modelled by the list of
  context operations it performs, in order. A paint is a CSS colour string, or the
  template \<^verbatim>\<open>`rgba(r, g, b, ${a})`\<close> with its numeric alpha kept as a number.
  Coordinates are \<^typ>\<open>real\<close>. The \<^verbatim>\<open>console.log\<close> call is left out.
\<close>

datatype paint = Css string | Rgba nat nat nat real

datatype canvas_op =
    SetFillStyle paint
  | SetStrokeStyle paint
  | SetFont string
  | SetTextAlign string
  | SetLineWidth real
  | SetLineDash "real list"
  | SetShadowColor string
  | SetShadowBlur real
  | FillText string real real
  | FillRect real real real real
  | BeginPath
  | MoveTo real real
  | LineTo real real
  | ClosePath
  | Stroke
  | Fill

text \<open>
  The remainder operator \<^verbatim>\<open>a % b\<close> on finite numbers with \<open>b \<noteq> 0\<close>: the quotient is
  truncated towards zero, so the result has the sign of \<open>a\<close>.
\<close>

definition js_rem :: "real \<Rightarrow> real \<Rightarrow> real" where
  "js_rem a b = a - b * of_int (if 0 \<le> a / b then \<lfloor>a / b\<rfloor> else \<lceil>a / b\<rceil>)"

text \<open>\<^verbatim>\<open>[...new Set(xs)]\<close>: the distinct elements, each at its first occurrence.\<close>

fun uniq :: "'a list \<Rightarrow> 'a list" where
  "uniq [] = []"
| "uniq (x # xs) = x # uniq (filter (\<lambda>y. y \<noteq> x) xs)"

definition colors :: "string list" where
  "colors = [''#8b5cf6'', ''#06b6d4'', ''#10b981'', ''#f59e0b'', ''#ef4444'', ''#ec4899'']"

definition beatsVisible :: nat where
  "beatsVisible = 4"

text \<open>
  \<^verbatim>\<open>
  const isActive = isPlaying &&
    Math.abs((time % beatsVisible) - (event.time % beatsVisible)) < 0.1
  \<close>
\<close>

definition isActive :: "bool \<Rightarrow> real \<Rightarrow> PunchcardData \<Rightarrow> bool" where
  "isActive playing time event =
     (playing \<and>
      \<bar>js_rem time (real beatsVisible) - js_rem (time_e event) (real beatsVisible)\<bar> < 0.1)"

text \<open>
  The body of the inner \<^verbatim>\<open>forEach\<close>: one event of the track at height \<open>y\<close>.
  \<^verbatim>\<open>
  const x = (event.time % beatsVisible) * timeScale
  const eventWidth = Math.max(12, timeScale / 8)
  const eventHeight = trackHeight * 0.5
  if (isActive) {
    ctx.shadowColor = color; ctx.shadowBlur = 10; ctx.fillStyle = color
  } else {
    ctx.shadowBlur = 0; ctx.fillStyle = isPlaying ? `${color}80` : color
  }
  ctx.fillRect(x, y + trackHeight * 0.3, eventWidth, eventHeight)
  ctx.shadowBlur = 0
  \<close>
\<close>

definition drawEvent ::
  "bool \<Rightarrow> real \<Rightarrow> real \<Rightarrow> real \<Rightarrow> real \<Rightarrow> string \<Rightarrow> PunchcardData \<Rightarrow> canvas_op list" where
  "drawEvent playing time timeScale trackHeight y color event =
     (let x = js_rem (time_e event) (real beatsVisible) * timeScale;
          eventWidth = max 12 (timeScale / 8);
          eventHeight = trackHeight * 0.5
      in (if isActive playing time event
          then [SetShadowColor color, SetShadowBlur 10, SetFillStyle (Css color)]
          else [SetShadowBlur 0, SetFillStyle (Css (if playing then color @ ''80'' else color))])
         @ [FillRect x (y + trackHeight * 0.3) eventWidth eventHeight, SetShadowBlur 0])"

text \<open>
  The body of the outer \<^verbatim>\<open>forEach((instrument, index) => ...)\<close>: the track's
  background and label, then the events whose value is this instrument.
\<close>

definition drawTrack ::
  "bool \<Rightarrow> PunchcardData list \<Rightarrow> real \<Rightarrow> real \<Rightarrow> real \<Rightarrow> real \<Rightarrow> string \<Rightarrow> nat
     \<Rightarrow> canvas_op list" where
  "drawTrack playing eventData time width timeScale trackHeight instrument index =
     (let y = real index * trackHeight;
          color = colors ! (index mod length colors)
      in [SetFillStyle (Css ''rgba(255, 255, 255, 0.05)''),
          FillRect 0 y width (trackHeight - 2),
          SetFillStyle (Css ''#d1d5db''),
          SetFont ''14px monospace'',
          SetTextAlign ''left'',
          FillText instrument 8 (y + 25)]
         @ concat (map (drawEvent playing time timeScale trackHeight y color)
                     (filter (\<lambda>event. value_e event = instrument) eventData)))"

text \<open>The block under \<^verbatim>\<open>if (isPlaying)\<close>: the playhead line and its triangle.\<close>

definition drawPlayhead :: "real \<Rightarrow> real \<Rightarrow> real \<Rightarrow> canvas_op list" where
  "drawPlayhead time timeScale height =
     (let currentX = js_rem time (real beatsVisible) * timeScale
      in [SetStrokeStyle (Css ''#ffffff''), SetLineWidth 3, SetLineDash [],
          BeginPath, MoveTo currentX 0, LineTo currentX height, Stroke,
          SetFillStyle (Css ''#ffffff''),
          BeginPath, MoveTo (currentX - 6) 0, LineTo (currentX + 6) 0, LineTo currentX 12,
          ClosePath, Fill])"

text \<open>
  \<^verbatim>\<open>drawCustomVisualization(ctx, eventData, time, width, height)\<close>; the routine also
  reads the component's \<^verbatim>\<open>isPlaying\<close> property, here the first argument.
  With no events it writes the placeholder text and the sample bars and returns:
  \<^verbatim>\<open>
  if (eventData.length === 0) {
    ctx.fillStyle = '#6b7280'; ctx.font = '16px monospace'; ctx.textAlign = 'center'
    ctx.fillText('No pattern data available', width / 2, height / 2)
    for (let i = 0; i < 4; i++) {
      ctx.fillStyle = `rgba(139, 92, 246, ${0.3 + i * 0.1})`
      ctx.fillRect(i * (width / 4) + 10, height * 0.7, width / 4 - 20, 20)
    }
    return
  }
  \<close>
  Otherwise it draws the beat grid (\<^verbatim>\<open>i <= beatsVisible\<close>), the subdivisions
  (\<^verbatim>\<open>i < beatsVisible * 4\<close>), one track per instrument, and the playhead when playing.
\<close>

definition drawCustomVisualization ::
  "bool \<Rightarrow> PunchcardData list \<Rightarrow> real \<Rightarrow> real \<Rightarrow> real \<Rightarrow> canvas_op list" where
  "drawCustomVisualization playing eventData time width height =
     (if length eventData = 0 then
        [SetFillStyle (Css ''#6b7280''), SetFont ''16px monospace'', SetTextAlign ''center'',
         FillText ''No pattern data available'' (width / 2) (height / 2)]
        @ concat (map (\<lambda>i. [SetFillStyle (Rgba 139 92 246 (0.3 + real i * 0.1)),
                              FillRect (real i * (width / 4) + 10) (height * 0.7)
                                (width / 4 - 20) 20])
                    [0..<4])
      else
        (let instruments = uniq (map value_e eventData);
             trackHeight = max 40 (height / max (real (length instruments)) 1);
             timeScale = width / real beatsVisible
         in [SetStrokeStyle (Css ''rgba(255, 255, 255, 0.1)''), SetLineWidth 1]
            @ concat (map (\<lambda>i. let x = real i * (width / real beatsVisible)
                                 in [BeginPath, MoveTo x 0, LineTo x height, Stroke])
                        [0..<beatsVisible + 1])
            @ [SetStrokeStyle (Css ''rgba(255, 255, 255, 0.05)'')]
            @ concat (map (\<lambda>i. let x = real i * (width / real (beatsVisible * 4))
                                 in [BeginPath, MoveTo x 0, LineTo x height, Stroke])
                        [0..<beatsVisible * 4])
            @ concat (map (\<lambda>(instrument, index).
                             drawTrack playing eventData time width timeScale trackHeight
                               instrument index)
                        (zip instruments [0..<length instruments]))
            @ (if playing then drawPlayhead time timeScale height else [])))"

text \<open>Counting the operations of one kind in a drawing.\<close>

fun is_fillRect :: "canvas_op \<Rightarrow> bool" where
  "is_fillRect (FillRect x y w h) = True"
| "is_fillRect _ = False"

fun is_fillText :: "canvas_op \<Rightarrow> bool" where
  "is_fillText (FillText str x y) = True"
| "is_fillText _ = False"

fun is_path_op :: "canvas_op \<Rightarrow> bool" where
  "is_path_op BeginPath = True"
| "is_path_op (MoveTo x y) = True"
| "is_path_op (LineTo x y) = True"
| "is_path_op ClosePath = True"
| "is_path_op Stroke = True"
| "is_path_op Fill = True"
| "is_path_op _ = False"

section \<open>Sample engines and states\<close>

text \<open>
  A concrete engine for evaluating the callbacks: a compiled pattern records the text it
  was compiled from and the gain applied to it. Three variants fail, one in each of the
  guarded calls.
\<close>

datatype handle = Compiled string | Gained handle "real option"

definition ok_engine :: "handle engine" where
  "ok_engine = \<lparr> s_fn = (\<lambda>str. Inr (Compiled str)),
                 gain = (\<lambda>h v. Inr (Gained h v)),
                 play = (\<lambda>h. Inr ()),
                 has_stop = (\<lambda>h. False) \<rparr>"

definition stoppable_engine :: "handle engine" where
  "stoppable_engine = ok_engine\<lparr>has_stop := (\<lambda>h. True)\<rparr>"

definition bad_syntax_engine :: "handle engine" where
  "bad_syntax_engine = ok_engine\<lparr>s_fn := (\<lambda>str. Inl (Thrown ''parse error''))\<rparr>"

definition bad_gain_engine :: "handle engine" where
  "bad_gain_engine = ok_engine\<lparr>gain := (\<lambda>h v. Inl (Thrown ''gain is not a function''))\<rparr>"

definition bad_play_engine :: "handle engine" where
  "bad_play_engine = ok_engine\<lparr>play := (\<lambda>h. Inl (Thrown ''audio context not started''))\<rparr>"

text \<open>A stopped state whose list is the given one, with the refs in step.\<close>

definition stopped_with :: "PatternInput list \<Rightarrow> handle app_state" where
  "stopped_with ps =
     \<lparr> patterns = ps, volume = [0.7], nextId = 3, isPlaying = False,
       combinedPattern = None, patternsRef = ps, volumeRef = Some 0.7 \<rparr>"

text \<open>The three events of the visualizer example.\<close>

definition example_events :: "PunchcardData list" where
  "example_events =
     [\<lparr> time_e = 0, value_e = ''bd'', name_e = None \<rparr>,
      \<lparr> time_e = 1, value_e = ''sd'', name_e = None \<rparr>,
      \<lparr> time_e = 0.5, value_e = ''hh'', name_e = None \<rparr>]"

section \<open>Properties of the playback controller\<close>

subsection \<open>Evaluating the callbacks\<close>

lemma js_bind_simps:
  "js_bind (fx, Inl e) f = (fx, Inl e)"
  "js_bind (fx, Inr x) f = (fx @ fst (f x), snd (f x))"
  by (simp_all add: js_bind_def split: prod.splits)

lemma try_catch_simps:
  "try_catch (fx, Inl e) h = (fx @ fst (h e), snd (h e))"
  "try_catch (fx, Inr x) h = (fx, Inr x)"
  by (simp_all add: try_catch_def split: prod.splits)

lemmas js_defs =
  js_return_def perform_def call_s_def call_gain_def call_play_def call_stop_opt_def

lemma apply_updates_simps:
  "apply_updates [] st = st"
  "apply_updates (e # fx) st = apply_updates fx (apply_effect e st)"
  "apply_updates (fx @ fx') st = apply_updates fx' (apply_updates fx st)"
  by (simp_all add: apply_updates_def)

lemma run_effects_fields:
  "patterns (run_effects st) = patterns st"
  "volume (run_effects st) = volume st"
  "nextId (run_effects st) = nextId st"
  "isPlaying (run_effects st) = isPlaying st"
  "combinedPattern (run_effects st) = combinedPattern st"
  "patternsRef (run_effects st) = patterns st"
  by (simp_all add: run_effects_def)

lemma trim_space: "trim '' '' = []"
  by (simp add: trim_def isWhiteSpace_def)

lemma valid_nonempty_iff:
  "filter (\<lambda>p. truthy (trim (pattern p))) ps \<noteq> [] \<longleftrightarrow> (\<exists>p\<in>set ps. trim (pattern p) \<noteq> [])"
  by (auto simp: filter_empty_conv truthy_def)

lemma combinedText_single:
  "truthy (trim str) \<Longrightarrow> combinedText [\<lparr> id_p = i, pattern = str, name = n \<rparr>] = str"
  by (simp add: combinedText_def)

text \<open>With nothing to compile the combiner returns \<^verbatim>\<open>null\<close> and touches nothing.\<close>

lemma createAndPlayPattern_none:
  assumes "filter (\<lambda>p. truthy (trim (pattern p))) (patternsRef st) = []"
  shows "createAndPlayPattern eng st = ([], Inr None)"
  using assms by (simp add: createAndPlayPattern_def js_defs)

text \<open>Otherwise it makes one call of \<^verbatim>\<open>s\<close>, then at most one of \<^verbatim>\<open>gain\<close>.\<close>

lemma createAndPlayPattern_some:
  assumes "filter (\<lambda>p. truthy (trim (pattern p))) (patternsRef st) \<noteq> []"
  shows "createAndPlayPattern eng st =
     (case s_fn eng (combinedText (patternsRef st)) of
        Inl e \<Rightarrow> ([Call_s (combinedText (patternsRef st)),
                   Console_error ''Error creating pattern:''], Inr None)
      | Inr c \<Rightarrow>
          (case gain eng c (volumeRef st) of
             Inl e \<Rightarrow> ([Call_s (combinedText (patternsRef st)), Call_gain c (volumeRef st),
                        Console_error ''Error creating pattern:''], Inr None)
           | Inr f \<Rightarrow> ([Call_s (combinedText (patternsRef st)), Call_gain c (volumeRef st)],
                       Inr (Some f))))"
  using assms
  by (simp add: createAndPlayPattern_def combinedText_def Let_def js_defs js_bind_simps
        try_catch_simps split: sum.splits)

lemma playAll_none:
  assumes "filter (\<lambda>p. truthy (trim (pattern p))) (patternsRef st) = []"
  shows "playAll eng st = ([Alert ''No valid patterns to play''], Inr ())"
  by (simp add: playAll_def createAndPlayPattern_none [OF assms] js_defs js_bind_simps)

text \<open>The four ways a play with something to compile can go.\<close>

lemma playAll_some:
  assumes "filter (\<lambda>p. truthy (trim (pattern p))) (patternsRef st) \<noteq> []"
  shows "playAll eng st =
     (case s_fn eng (combinedText (patternsRef st)) of
        Inl e \<Rightarrow> ([Call_s (combinedText (patternsRef st)),
                   Console_error ''Error creating pattern:'',
                   Alert ''No valid patterns to play''], Inr ())
      | Inr c \<Rightarrow>
          (case gain eng c (volumeRef st) of
             Inl e \<Rightarrow> ([Call_s (combinedText (patternsRef st)), Call_gain c (volumeRef st),
                        Console_error ''Error creating pattern:'',
                        Alert ''No valid patterns to play''], Inr ())
           | Inr f \<Rightarrow>
               (case play eng f of
                  Inl e \<Rightarrow> ([Call_s (combinedText (patternsRef st)), Call_gain c (volumeRef st),
                             Call_play f, Console_error ''Error playing patterns:'',
                             Alert ''Error playing patterns. Please check your syntax.''],
                            Inr ())
                | Inr u \<Rightarrow> ([Call_s (combinedText (patternsRef st)), Call_gain c (volumeRef st),
                             Call_play f, SetCombinedPattern (Some f), SetIsPlaying True],
                            Inr ()))))"
  by (simp add: playAll_def createAndPlayPattern_some [OF assms] js_defs js_bind_simps
        try_catch_simps split: sum.splits)

lemma stopAll_eq:
  "stopAll eng st =
     ((case combinedPattern st of
         Some h \<Rightarrow> if has_stop eng h then [Call_stop h] else []
       | None \<Rightarrow> [])
      @ [Call_hush, SetIsPlaying False, SetCombinedPattern None], Inr ())"
  by (simp add: stopAll_def js_defs js_bind_simps split: option.splits)

subsection \<open>Play\<close>

text \<open>
  C1, as the code has it. For every state whose list (the one \<^verbatim>\<open>playAll\<close> reads,
  \<^verbatim>\<open>patternsRef.current\<close>) has at least one entry whose text is not empty after
  trimming, \<^verbatim>\<open>playAll\<close> returns normally: it never throws. When \<^verbatim>\<open>s\<close>, \<^verbatim>\<open>gain\<close> and
  \<^verbatim>\<open>play\<close> all return, it calls \<^verbatim>\<open>setCombinedPattern\<close> and then \<^verbatim>\<open>setIsPlaying(true)\<close>,
  each exactly once, and the next state is playing. When one of the three throws, the
  error is caught, \<^verbatim>\<open>setIsPlaying\<close> is not called and the flag keeps its value.
\<close>

theorem playAll_nonblank:
  assumes "\<exists>p\<in>set (patternsRef st). trim (pattern p) \<noteq> []"
  shows "snd (playAll eng st) = Inr () \<and>
         (\<forall>c f. s_fn eng (combinedText (patternsRef st)) = Inr c \<and>
                 gain eng c (volumeRef st) = Inr f \<and> play eng f = Inr () \<longrightarrow>
            fst (playAll eng st) =
              [Call_s (combinedText (patternsRef st)), Call_gain c (volumeRef st), Call_play f,
               SetCombinedPattern (Some f), SetIsPlaying True] \<and>
            count_list (fst (playAll eng st)) (SetIsPlaying True) = 1 \<and>
            isPlaying (dispatch (playAll eng) st) \<and>
            combinedPattern (dispatch (playAll eng) st) = Some f) \<and>
         ((\<exists>e. s_fn eng (combinedText (patternsRef st)) = Inl e) \<or>
          (\<exists>c e. s_fn eng (combinedText (patternsRef st)) = Inr c \<and>
                  gain eng c (volumeRef st) = Inl e) \<or>
          (\<exists>c f e. s_fn eng (combinedText (patternsRef st)) = Inr c \<and>
                    gain eng c (volumeRef st) = Inr f \<and> play eng f = Inl e) \<longrightarrow>
            (\<forall>b. SetIsPlaying b \<notin> set (fst (playAll eng st))) \<and>
            isPlaying (dispatch (playAll eng) st) = isPlaying st)"
proof -
  have valid: "filter (\<lambda>p. truthy (trim (pattern p))) (patternsRef st) \<noteq> []"
    using assms by (simp add: valid_nonempty_iff)
  note eq = playAll_some [OF valid, of eng]
  have "snd (playAll eng st) = Inr ()"
    by (simp add: eq split: sum.splits)
  moreover have "fst (playAll eng st) =
              [Call_s (combinedText (patternsRef st)), Call_gain c (volumeRef st), Call_play f,
               SetCombinedPattern (Some f), SetIsPlaying True] \<and>
            count_list (fst (playAll eng st)) (SetIsPlaying True) = 1 \<and>
            isPlaying (dispatch (playAll eng) st) \<and>
            combinedPattern (dispatch (playAll eng) st) = Some f"
    if "s_fn eng (combinedText (patternsRef st)) = Inr c"
      "gain eng c (volumeRef st) = Inr f" "play eng f = Inr ()" for c f
    using that by (simp add: eq dispatch_def apply_updates_simps run_effects_fields)
  moreover have "(\<forall>b. SetIsPlaying b \<notin> set (fst (playAll eng st))) \<and>
            isPlaying (dispatch (playAll eng) st) = isPlaying st"
    if "(\<exists>e. s_fn eng (combinedText (patternsRef st)) = Inl e) \<or>
          (\<exists>c e. s_fn eng (combinedText (patternsRef st)) = Inr c \<and>
                  gain eng c (volumeRef st) = Inl e) \<or>
          (\<exists>c f e. s_fn eng (combinedText (patternsRef st)) = Inr c \<and>
                    gain eng c (volumeRef st) = Inr f \<and> play eng f = Inl e)"
    using that by (auto simp: eq dispatch_def apply_updates_simps run_effects_fields)
  ultimately show ?thesis by blast
qed

text \<open>The first render, played on an engine that accepts everything.\<close>

theorem playAll_nonblank_witness:
  "(\<exists>p\<in>set (patternsRef (initial_state :: handle app_state)). trim (pattern p) \<noteq> []) \<and>
   playAll ok_engine initial_state =
     ([Call_s ''bd sd [~ bd] sd, hh*8'',
       Call_gain (Compiled ''bd sd [~ bd] sd, hh*8'') (Some 0.7),
       Call_play (Gained (Compiled ''bd sd [~ bd] sd, hh*8'') (Some 0.7)),
       SetCombinedPattern (Some (Gained (Compiled ''bd sd [~ bd] sd, hh*8'') (Some 0.7))),
       SetIsPlaying True], Inr ()) \<and>
   isPlaying (dispatch (playAll ok_engine) initial_state)"
proof -
  have t: "combinedText (patternsRef (initial_state :: handle app_state))
             = ''bd sd [~ bd] sd, hh*8''"
    by (simp add: combinedText_def initial_state_def truthy_def trim_def isWhiteSpace_def)
  have h: "\<exists>p\<in>set (patternsRef (initial_state :: handle app_state)). trim (pattern p) \<noteq> []"
    by (simp add: initial_state_def trim_def isWhiteSpace_def)
  have v: "volumeRef (initial_state :: handle app_state) = Some 0.7"
    by (simp add: initial_state_def)
  show ?thesis
    using h playAll_nonblank [OF h, of ok_engine]
    by (simp add: t v ok_engine_def prod_eq_iff)
qed

text \<open>
  C1 as stated fails twice over. A list whose only entry holds a single space has an
  entry with non-empty text, yet nothing is compiled and the state stays stopped; and a
  list with the entry \<^verbatim>\<open>bd(\<close> on an engine whose compiler rejects every text stays
  stopped as well.
\<close>

theorem playAll_nonempty_counterexample:
  "pattern \<lparr> id_p = ''3'', pattern = '' '', name = ''Pattern 3'' \<rparr> \<noteq> [] \<and>
   playAll ok_engine (stopped_with [\<lparr> id_p = ''3'', pattern = '' '', name = ''Pattern 3'' \<rparr>])
     = ([Alert ''No valid patterns to play''], Inr ()) \<and>
   \<not> isPlaying (dispatch (playAll ok_engine)
                  (stopped_with [\<lparr> id_p = ''3'', pattern = '' '', name = ''Pattern 3'' \<rparr>])) \<and>
   pattern \<lparr> id_p = ''1'', pattern = ''bd('', name = ''Kick'' \<rparr> \<noteq> [] \<and>
   playAll bad_syntax_engine (stopped_with [\<lparr> id_p = ''1'', pattern = ''bd('', name = ''Kick'' \<rparr>])
     = ([Call_s ''bd('', Console_error ''Error creating pattern:'',
         Alert ''No valid patterns to play''], Inr ()) \<and>
   \<not> isPlaying (dispatch (playAll bad_syntax_engine)
                  (stopped_with [\<lparr> id_p = ''1'', pattern = ''bd('', name = ''Kick'' \<rparr>]))"
proof -
  have blank:
    "playAll ok_engine (stopped_with [\<lparr> id_p = ''3'', pattern = '' '', name = ''Pattern 3'' \<rparr>])
       = ([Alert ''No valid patterns to play''], Inr ())"
    by (rule playAll_none) (simp add: stopped_with_def truthy_def trim_space)
  have valid: "truthy (trim ''bd('')"
    by (simp add: truthy_def trim_def isWhiteSpace_def)
  have bad:
    "playAll bad_syntax_engine (stopped_with [\<lparr> id_p = ''1'', pattern = ''bd('', name = ''Kick'' \<rparr>])
       = ([Call_s ''bd('', Console_error ''Error creating pattern:'',
           Alert ''No valid patterns to play''], Inr ())"
    by (subst playAll_some)
       (simp_all add: stopped_with_def valid combinedText_single bad_syntax_engine_def
          ok_engine_def)
  show ?thesis
    by (simp add: blank bad dispatch_def apply_updates_simps run_effects_fields)
       (simp add: stopped_with_def)
qed

text \<open>
  C2. For every state whose list has no entry with non-empty text, \<^verbatim>\<open>playAll\<close> only
  shows the alert: it never calls the compiler \<^verbatim>\<open>s\<close>, it calls no setter, and the
  patterns, the playing flag, the session handle and the volume are what they were.
  (The same holds when every text is blank: lemma \<open>playAll_none\<close>.)
\<close>

theorem playAll_all_empty:
  assumes "\<forall>p\<in>set (patternsRef st). pattern p = []"
  shows "playAll eng st = ([Alert ''No valid patterns to play''], Inr ()) \<and>
         (\<forall>str. Call_s str \<notin> set (fst (playAll eng st))) \<and>
         apply_updates (fst (playAll eng st)) st = st \<and>
         patterns (dispatch (playAll eng) st) = patterns st \<and>
         isPlaying (dispatch (playAll eng) st) = isPlaying st \<and>
         combinedPattern (dispatch (playAll eng) st) = combinedPattern st \<and>
         volume (dispatch (playAll eng) st) = volume st"
proof -
  have "filter (\<lambda>p. truthy (trim (pattern p))) (patternsRef st) = []"
    using assms by (simp add: filter_empty_conv truthy_def trim_def)
  then have "playAll eng st = ([Alert ''No valid patterns to play''], Inr ())"
    by (rule playAll_none)
  then show ?thesis
    by (simp add: dispatch_def apply_updates_simps run_effects_fields)
qed

text \<open>A freshly added entry, the only one of its list: its text is empty.\<close>

theorem playAll_all_empty_witness:
  "playAll ok_engine (stopped_with [\<lparr> id_p = ''3'', pattern = '''', name = ''Pattern 3'' \<rparr>])
     = ([Alert ''No valid patterns to play''], Inr ()) \<and>
   dispatch (playAll ok_engine)
       (stopped_with [\<lparr> id_p = ''3'', pattern = '''', name = ''Pattern 3'' \<rparr>])
     = stopped_with [\<lparr> id_p = ''3'', pattern = '''', name = ''Pattern 3'' \<rparr>]"
  using playAll_all_empty
          [of "stopped_with [\<lparr> id_p = ''3'', pattern = '''', name = ''Pattern 3'' \<rparr>]" ok_engine]
  by (simp add: stopped_with_def dispatch_def run_effects_def apply_updates_simps)

text \<open>
  C3. Whenever the compiler \<^verbatim>\<open>s\<close>, the \<^verbatim>\<open>gain\<close> call or the player \<^verbatim>\<open>play\<close> throws
  during \<^verbatim>\<open>playAll\<close>, the error is caught (\<^verbatim>\<open>playAll\<close> returns normally), an alert is
  shown (for a compile error it is the text \<^verbatim>\<open>No valid patterns to play\<close>), no setter
  is called, and so the playing flag and the session handle keep their values: a
  stopped state with no handle stays one.
\<close>

theorem playAll_engine_error:
  assumes "\<exists>p\<in>set (patternsRef st). trim (pattern p) \<noteq> []"
    and "(\<exists>e. s_fn eng (combinedText (patternsRef st)) = Inl e) \<or>
         (\<exists>c e. s_fn eng (combinedText (patternsRef st)) = Inr c \<and>
                 gain eng c (volumeRef st) = Inl e) \<or>
         (\<exists>c f e. s_fn eng (combinedText (patternsRef st)) = Inr c \<and>
                   gain eng c (volumeRef st) = Inr f \<and> play eng f = Inl e)"
  shows "snd (playAll eng st) = Inr () \<and>
         (Alert ''No valid patterns to play'' \<in> set (fst (playAll eng st)) \<or>
          Alert ''Error playing patterns. Please check your syntax.''
            \<in> set (fst (playAll eng st))) \<and>
         apply_updates (fst (playAll eng st)) st = st \<and>
         isPlaying (dispatch (playAll eng) st) = isPlaying st \<and>
         combinedPattern (dispatch (playAll eng) st) = combinedPattern st"
proof -
  have valid: "filter (\<lambda>p. truthy (trim (pattern p))) (patternsRef st) \<noteq> []"
    using assms(1) by (simp add: valid_nonempty_iff)
  note eq = playAll_some [OF valid, of eng]
  from assms(2) show ?thesis
    by (auto simp: eq dispatch_def apply_updates_simps run_effects_fields)
qed

text \<open>One entry, \<^verbatim>\<open>bd\<close>, on an engine whose player throws.\<close>

theorem playAll_engine_error_witness:
  "playAll bad_play_engine (stopped_with [\<lparr> id_p = ''1'', pattern = ''bd'', name = ''Kick'' \<rparr>])
     = ([Call_s ''bd'', Call_gain (Compiled ''bd'') (Some 0.7),
         Call_play (Gained (Compiled ''bd'') (Some 0.7)),
         Console_error ''Error playing patterns:'',
         Alert ''Error playing patterns. Please check your syntax.''], Inr ()) \<and>
   \<not> isPlaying (dispatch (playAll bad_play_engine)
                  (stopped_with [\<lparr> id_p = ''1'', pattern = ''bd'', name = ''Kick'' \<rparr>])) \<and>
   combinedPattern (dispatch (playAll bad_play_engine)
                  (stopped_with [\<lparr> id_p = ''1'', pattern = ''bd'', name = ''Kick'' \<rparr>])) = None"
proof -
  let ?st = "stopped_with [\<lparr> id_p = ''1'', pattern = ''bd'', name = ''Kick'' \<rparr>]"
  have valid: "truthy (trim ''bd'')"
    by (simp add: truthy_def trim_def isWhiteSpace_def)
  have h1: "\<exists>p\<in>set (patternsRef ?st). trim (pattern p) \<noteq> []"
    using valid by (simp add: stopped_with_def truthy_def)
  have t: "combinedText (patternsRef ?st) = ''bd''"
    by (simp add: stopped_with_def combinedText_single valid)
  have h2: "(\<exists>e. s_fn bad_play_engine (combinedText (patternsRef ?st)) = Inl e) \<or>
         (\<exists>c e. s_fn bad_play_engine (combinedText (patternsRef ?st)) = Inr c \<and>
                 gain bad_play_engine c (volumeRef ?st) = Inl e) \<or>
         (\<exists>c f e. s_fn bad_play_engine (combinedText (patternsRef ?st)) = Inr c \<and>
                   gain bad_play_engine c (volumeRef ?st) = Inr f \<and>
                   play bad_play_engine f = Inl e)"
    by (simp add: t bad_play_engine_def ok_engine_def)
  have fx: "playAll bad_play_engine ?st
     = ([Call_s ''bd'', Call_gain (Compiled ''bd'') (Some 0.7),
         Call_play (Gained (Compiled ''bd'') (Some 0.7)),
         Console_error ''Error playing patterns:'',
         Alert ''Error playing patterns. Please check your syntax.''], Inr ())"
    by (subst playAll_some)
       (simp_all add: stopped_with_def valid combinedText_single bad_play_engine_def
          ok_engine_def)
  show ?thesis
    using playAll_engine_error [OF h1 h2] fx
    by (simp add: stopped_with_def)
qed

subsection \<open>The combiner\<close>

lemma trim_bd: "trim ''bd'' = ''bd''"
  by (simp add: trim_def isWhiteSpace_def)

lemma trim_hh: "trim ''hh*8'' = ''hh*8''"
  by (simp add: trim_def isWhiteSpace_def)

text \<open>
  C4, as the code has it. Let \<open>validPatterns\<close> be the entries whose text is not empty
  after trimming, in list order. When there is exactly one, the combiner compiles that
  entry's text (untrimmed); when there are two or more, it compiles their texts joined
  by a comma and a space. In both cases \<^verbatim>\<open>gain(volumeRef.current)\<close> is called on the
  compiled result, and what \<^verbatim>\<open>gain\<close> returns is what the combiner returns.
\<close>

theorem createAndPlayPattern_combines:
  assumes "validPatterns = filter (\<lambda>p. trim (pattern p) \<noteq> []) (patternsRef st)"
  shows "(length validPatterns = 1 \<longrightarrow>
            compiles_with_gain eng st (pattern (validPatterns ! 0))) \<and>
         (2 \<le> length validPatterns \<longrightarrow>
            compiles_with_gain eng st (join '', '' (map pattern validPatterns)))"
proof -
  have v: "filter (\<lambda>p. truthy (trim (pattern p))) (patternsRef st) = validPatterns"
    by (simp add: assms truthy_def)
  have main: "compiles_with_gain eng st (combinedText (patternsRef st))"
    if "validPatterns \<noteq> []"
    unfolding compiles_with_gain_def
    by (rule createAndPlayPattern_some) (simp add: v that)
  show ?thesis
  proof (intro conjI impI)
    assume one: "length validPatterns = 1"
    then have "validPatterns \<noteq> []" by auto
    then have "compiles_with_gain eng st (combinedText (patternsRef st))" by (rule main)
    moreover have "combinedText (patternsRef st) = pattern (validPatterns ! 0)"
      using one by (simp add: combinedText_def v)
    ultimately show "compiles_with_gain eng st (pattern (validPatterns ! 0))" by simp
  next
    assume more: "2 \<le> length validPatterns"
    then have "validPatterns \<noteq> []" by auto
    then have "compiles_with_gain eng st (combinedText (patternsRef st))" by (rule main)
    moreover have "combinedText (patternsRef st) = join '', '' (map pattern validPatterns)"
      using more by (simp add: combinedText_def v)
    ultimately show "compiles_with_gain eng st (join '', '' (map pattern validPatterns))"
      by simp
  qed
qed

text \<open>
  Three entries of which the middle one is blank are compiled as the two others joined;
  two entries of which one is blank are compiled as the other alone.
\<close>

theorem createAndPlayPattern_combines_witness:
  "createAndPlayPattern ok_engine
     (stopped_with [\<lparr> id_p = ''1'', pattern = ''bd'', name = ''Kick'' \<rparr>,
                    \<lparr> id_p = ''2'', pattern = '' '', name = ''Pad'' \<rparr>,
                    \<lparr> id_p = ''3'', pattern = ''hh*8'', name = ''Hats'' \<rparr>])
     = ([Call_s ''bd, hh*8'', Call_gain (Compiled ''bd, hh*8'') (Some 0.7)],
        Inr (Some (Gained (Compiled ''bd, hh*8'') (Some 0.7)))) \<and>
   createAndPlayPattern ok_engine
     (stopped_with [\<lparr> id_p = ''1'', pattern = ''bd'', name = ''Kick'' \<rparr>,
                    \<lparr> id_p = ''2'', pattern = '' '', name = ''Pad'' \<rparr>])
     = ([Call_s ''bd'', Call_gain (Compiled ''bd'') (Some 0.7)],
        Inr (Some (Gained (Compiled ''bd'') (Some 0.7))))"
  using createAndPlayPattern_combines
     [of "[\<lparr> id_p = ''1'', pattern = ''bd'', name = ''Kick'' \<rparr>,
           \<lparr> id_p = ''3'', pattern = ''hh*8'', name = ''Hats'' \<rparr>]"
         "stopped_with [\<lparr> id_p = ''1'', pattern = ''bd'', name = ''Kick'' \<rparr>,
                    \<lparr> id_p = ''2'', pattern = '' '', name = ''Pad'' \<rparr>,
                    \<lparr> id_p = ''3'', pattern = ''hh*8'', name = ''Hats'' \<rparr>]" ok_engine]
    createAndPlayPattern_combines
     [of "[\<lparr> id_p = ''1'', pattern = ''bd'', name = ''Kick'' \<rparr>]"
         "stopped_with [\<lparr> id_p = ''1'', pattern = ''bd'', name = ''Kick'' \<rparr>,
                    \<lparr> id_p = ''2'', pattern = '' '', name = ''Pad'' \<rparr>]" ok_engine]
  by (simp add: stopped_with_def trim_bd trim_hh trim_space compiles_with_gain_def
        ok_engine_def)

text \<open>
  C4 as stated fails on a list with the texts \<^verbatim>\<open>bd\<close> and a single space: two entries
  have non-empty text, so the claim has the joined text compiled, a \<^verbatim>\<open>bd\<close> followed
  by a comma and two spaces; the code compiles \<^verbatim>\<open>bd\<close> alone.
\<close>

theorem combiner_nonempty_counterexample:
  "length (spec_nonEmpty (patternsRef
     (stopped_with [\<lparr> id_p = ''1'', pattern = ''bd'', name = ''Kick'' \<rparr>,
                    \<lparr> id_p = ''2'', pattern = '' '', name = ''Pad'' \<rparr>]))) = 2 \<and>
   spec_combinedText (patternsRef
     (stopped_with [\<lparr> id_p = ''1'', pattern = ''bd'', name = ''Kick'' \<rparr>,
                    \<lparr> id_p = ''2'', pattern = '' '', name = ''Pad'' \<rparr>])) = ''bd,  '' \<and>
   fst (createAndPlayPattern ok_engine
     (stopped_with [\<lparr> id_p = ''1'', pattern = ''bd'', name = ''Kick'' \<rparr>,
                    \<lparr> id_p = ''2'', pattern = '' '', name = ''Pad'' \<rparr>]))
     = [Call_s ''bd'', Call_gain (Compiled ''bd'') (Some 0.7)]"
proof -
  let ?st = "stopped_with [\<lparr> id_p = ''1'', pattern = ''bd'', name = ''Kick'' \<rparr>,
                    \<lparr> id_p = ''2'', pattern = '' '', name = ''Pad'' \<rparr>]"
  have v: "filter (\<lambda>p. truthy (trim (pattern p))) (patternsRef ?st)
             = [\<lparr> id_p = ''1'', pattern = ''bd'', name = ''Kick'' \<rparr>]"
    by (simp add: stopped_with_def truthy_def trim_bd trim_space)
  have t: "combinedText (patternsRef ?st) = ''bd''"
    by (simp add: combinedText_def v)
  have "createAndPlayPattern ok_engine ?st
          = ([Call_s ''bd'', Call_gain (Compiled ''bd'') (Some 0.7)],
             Inr (Some (Gained (Compiled ''bd'') (Some 0.7))))"
    by (subst createAndPlayPattern_some)
       (simp_all add: v t ok_engine_def, simp add: stopped_with_def)
  then show ?thesis
    by (simp add: spec_nonEmpty_def spec_combinedText_def stopped_with_def)
qed

subsection \<open>Stop\<close>

text \<open>
  C5. \<^verbatim>\<open>stopAll\<close> calls the handle's own \<^verbatim>\<open>stop\<close> when there is a handle and it has
  one (\<^verbatim>\<open>combinedPattern.stop?.()\<close>), then \<^verbatim>\<open>hush\<close>, then \<^verbatim>\<open>setIsPlaying(false)\<close>,
  then \<^verbatim>\<open>setCombinedPattern(null)\<close>; the next state is stopped and has no handle; and
  stopping twice in a row gives the state that stopping once gives.
\<close>

theorem stopAll_stops_and_clears:
  "stopAll eng st =
     ((case combinedPattern st of
         Some h \<Rightarrow> if has_stop eng h then [Call_stop h] else []
       | None \<Rightarrow> [])
      @ [Call_hush, SetIsPlaying False, SetCombinedPattern None], Inr ()) \<and>
   \<not> isPlaying (dispatch (stopAll eng) st) \<and>
   combinedPattern (dispatch (stopAll eng) st) = None \<and>
   dispatch (stopAll eng) (dispatch (stopAll eng) st) = dispatch (stopAll eng) st"
  by (simp add: stopAll_eq dispatch_def apply_updates_simps run_effects_def)

text \<open>A playing state on an engine whose patterns have a \<^verbatim>\<open>stop\<close>, stopped.\<close>

theorem stopAll_stops_and_clears_witness:
  "stopAll stoppable_engine
     ((stopped_with []) \<lparr> isPlaying := True, combinedPattern := Some (Compiled ''bd'') \<rparr>)
     = ([Call_stop (Compiled ''bd''), Call_hush, SetIsPlaying False, SetCombinedPattern None],
        Inr ()) \<and>
   dispatch (stopAll stoppable_engine)
     ((stopped_with []) \<lparr> isPlaying := True, combinedPattern := Some (Compiled ''bd'') \<rparr>)
     = stopped_with [] \<and>
   dispatch (stopAll stoppable_engine) (stopped_with []) = stopped_with []"
  using stopAll_stops_and_clears
     [of stoppable_engine
         "(stopped_with []) \<lparr> isPlaying := True, combinedPattern := Some (Compiled ''bd'') \<rparr>"]
  by (simp add: stopAll_eq stoppable_engine_def ok_engine_def stopped_with_def dispatch_def
        apply_updates_simps run_effects_def)

subsection \<open>The pattern store\<close>

lemma addPattern_eq:
  "addPattern st =
     ([SetPatterns (patterns st @ [\<lparr> id_p = toString (nextId st), pattern = '''',
                                     name = ''Pattern '' @ toString (nextId st) \<rparr>]),
       SetNextId (nextId st + 1)], Inr ())"
  by (simp add: addPattern_def Let_def js_defs js_bind_simps)

lemma removePattern_eq:
  "removePattern eng i st =
     ((if isPlaying st then fst (stopAll eng st) else [])
      @ [SetPatterns (filter (\<lambda>p. id_p p \<noteq> i) (patterns st))], Inr ())"
  by (simp add: removePattern_def stopAll_eq js_defs js_bind_simps)

lemma updatePattern_eq:
  "updatePattern i fld v st =
     ([SetPatterns (map (\<lambda>p. if id_p p = i then set_field fld v p else p) (patterns st))],
      Inr ())"
  by (simp add: updatePattern_def js_defs)

text \<open>
  C6. In a playing state, \<^verbatim>\<open>removePattern\<close> with any id (that of the entry being
  played included) first does all that \<^verbatim>\<open>stopAll\<close> does and only then calls
  \<^verbatim>\<open>setPatterns\<close> with the list filtered; the next state is stopped, has no handle, and
  its list is the old one without the entries of that id.
\<close>

theorem removePattern_stops_first:
  assumes "isPlaying st"
  shows "removePattern eng i st =
           (fst (stopAll eng st) @ [SetPatterns (filter (\<lambda>p. id_p p \<noteq> i) (patterns st))],
            Inr ()) \<and>
         \<not> isPlaying (dispatch (removePattern eng i) st) \<and>
         combinedPattern (dispatch (removePattern eng i) st) = None \<and>
         patterns (dispatch (removePattern eng i) st)
           = filter (\<lambda>p. id_p p \<noteq> i) (patterns st)"
  using assms
  by (simp add: removePattern_def stopAll_eq js_defs js_bind_simps dispatch_def
        apply_updates_simps run_effects_fields)

text \<open>The two initial entries playing, the second one removed.\<close>

theorem removePattern_stops_first_witness:
  "removePattern ok_engine ''2''
     ((initial_state :: handle app_state)
        \<lparr> isPlaying := True, combinedPattern := Some (Compiled ''bd'') \<rparr>)
     = ([Call_hush, SetIsPlaying False, SetCombinedPattern None,
         SetPatterns [\<lparr> id_p = ''1'', pattern = ''bd sd [~ bd] sd'', name = ''Kick & Snare'' \<rparr>]],
        Inr ()) \<and>
   \<not> isPlaying (dispatch (removePattern ok_engine ''2'')
        ((initial_state :: handle app_state)
           \<lparr> isPlaying := True, combinedPattern := Some (Compiled ''bd'') \<rparr>))"
  using removePattern_stops_first
     [of "(initial_state :: handle app_state)
            \<lparr> isPlaying := True, combinedPattern := Some (Compiled ''bd'') \<rparr>" ok_engine "''2''"]
  by (simp add: stopAll_eq initial_state_def ok_engine_def)

text \<open>Decimal numerals of different numbers differ.\<close>

lemma digit_char_inj:
  assumes "a < 10" "b < 10" "digit_char a = digit_char b"
  shows "a = b"
proof -
  have "distinct ''0123456789''" by simp
  moreover have "a < length ''0123456789''" "b < length ''0123456789''"
    using assms by simp_all
  ultimately show ?thesis
    using assms(3) unfolding digit_char_def by (simp only: nth_eq_iff_index_eq)
qed

lemma toString_not_Nil: "toString n \<noteq> []"
  by (subst toString.simps) simp

lemma toString_inj: "toString m = toString n \<Longrightarrow> m = n"
proof (induction m arbitrary: n rule: toString.induct)
  case (1 m)
  show ?case
  proof (cases "m < 10")
    case small: True
    show ?thesis
    proof (cases "n < 10")
      case True
      with small "1.prems" show ?thesis
        by (simp add: toString.simps [of m] toString.simps [of n] digit_char_inj)
    next
      case False
      with small "1.prems" show ?thesis
        using toString_not_Nil [of "n div 10"]
        by (simp add: toString.simps [of m] toString.simps [of n])
    qed
  next
    case big: False
    show ?thesis
    proof (cases "n < 10")
      case True
      with big "1.prems" show ?thesis
        using toString_not_Nil [of "m div 10"]
        by (simp add: toString.simps [of m] toString.simps [of n])
    next
      case False
      with big "1.prems" have eq: "toString (m div 10) = toString (n div 10)"
        and d: "digit_char (m mod 10) = digit_char (n mod 10)"
        by (simp_all add: toString.simps [of m] toString.simps [of n])
      from "1.IH" [OF big eq] have "m div 10 = n div 10" .
      moreover from d have "m mod 10 = n mod 10"
        by (intro digit_char_inj) simp_all
      ultimately show ?thesis
        by (metis div_mult_mod_eq)
    qed
  qed
qed

lemma toString_small: "toString 1 = ''1''" "toString 2 = ''2''" "toString 3 = ''3''"
  by (simp_all add: toString.simps digit_char_def)

text \<open>What \<^verbatim>\<open>playAll\<close> leaves of the list and the counter.\<close>

lemma playAll_store:
  "patterns (dispatch (playAll eng) st) = patterns st"
  "nextId (dispatch (playAll eng) st) = nextId st"
proof -
  show "patterns (dispatch (playAll eng) st) = patterns st"
  proof (cases "filter (\<lambda>p. truthy (trim (pattern p))) (patternsRef st) = []")
    case True
    then show ?thesis
      by (simp add: playAll_none dispatch_def apply_updates_simps run_effects_fields)
  next
    case False
    then show ?thesis
      by (simp add: playAll_some dispatch_def apply_updates_simps run_effects_fields
            split: sum.splits)
  qed
  show "nextId (dispatch (playAll eng) st) = nextId st"
  proof (cases "filter (\<lambda>p. truthy (trim (pattern p))) (patternsRef st) = []")
    case True
    then show ?thesis
      by (simp add: playAll_none dispatch_def apply_updates_simps run_effects_fields)
  next
    case False
    then show ?thesis
      by (simp add: playAll_some dispatch_def apply_updates_simps run_effects_fields
            split: sum.splits)
  qed
qed

text \<open>Whatever the user does, the ids in the list stay below the counter.\<close>

lemma reachable_ids: "reachable st \<Longrightarrow> ids_below st"
proof (induction rule: reachable.induct)
  case init
  have a: "\<exists>k<3. ''1'' = toString k"
    by (rule exI [of _ 1]) (simp add: toString.simps digit_char_def)
  have b: "\<exists>k<3. ''2'' = toString k"
    by (rule exI [of _ 2]) (simp add: toString.simps digit_char_def)
  show ?case
    by (simp add: ids_below_def initial_state_def a b)
next
  case (click_play st eng)
  then show ?case by (simp add: ids_below_def playAll_store)
next
  case (click_stop st eng)
  then show ?case
    by (simp add: ids_below_def stopAll_eq dispatch_def apply_updates_simps run_effects_fields
          split: option.splits)
next
  case (click_add st)
  then show ?case
    by (auto simp: ids_below_def addPattern_eq dispatch_def apply_updates_simps
          run_effects_fields less_Suc_eq)
next
  case (click_remove st p eng)
  then show ?case
    by (simp add: ids_below_def removePattern_eq stopAll_eq dispatch_def apply_updates_simps
          run_effects_fields split: option.splits)
next
  case (edit_name st p v)
  then show ?case
    by (auto simp: ids_below_def updatePattern_eq dispatch_def apply_updates_simps
          run_effects_fields)
next
  case (edit_pattern st p v)
  then show ?case
    by (auto simp: ids_below_def updatePattern_eq dispatch_def apply_updates_simps
          run_effects_fields)
next
  case (slide_volume st vs)
  then show ?case
    by (simp add: ids_below_def perform_def dispatch_def apply_updates_simps
          run_effects_fields)
qed

lemma add_then_remove:
  assumes "ids_below st"
  shows "patterns (dispatch (removePattern eng (toString (nextId st))) (dispatch addPattern st))
           = patterns st"
proof -
  have fresh: "id_p p \<noteq> toString (nextId st)" if "p \<in> set (patterns st)" for p
  proof -
    from assms that obtain k where "k < nextId st" "id_p p = toString k"
      unfolding ids_below_def by blast
    then show ?thesis using toString_inj [of k "nextId st"] by auto
  qed
  then have "filter (\<lambda>p. id_p p \<noteq> toString (nextId st)) (patterns st) = patterns st"
    by (simp add: filter_id_conv)
  then show ?thesis
    by (simp add: removePattern_eq stopAll_eq addPattern_eq dispatch_def apply_updates_simps
          run_effects_fields)
qed

text \<open>
  C7. In every state the page can be in, \<^verbatim>\<open>addPattern\<close> appends one entry, whose id is
  the decimal numeral of \<^verbatim>\<open>nextId\<close>, and \<^verbatim>\<open>removePattern\<close> called next with that
  entry's id gives back the list as it was before the add, contents and order.
\<close>

theorem add_remove_roundtrip:
  assumes "reachable st"
  shows "id_p (last (patterns (dispatch addPattern st))) = toString (nextId st) \<and>
         patterns (dispatch addPattern st)
           = patterns st @ [\<lparr> id_p = toString (nextId st), pattern = '''',
                               name = ''Pattern '' @ toString (nextId st) \<rparr>] \<and>
         patterns (dispatch (removePattern eng (id_p (last (patterns (dispatch addPattern st)))))
                     (dispatch addPattern st))
           = patterns st"
proof -
  have a: "patterns (dispatch addPattern st)
           = patterns st @ [\<lparr> id_p = toString (nextId st), pattern = '''',
                               name = ''Pattern '' @ toString (nextId st) \<rparr>]"
    by (simp add: addPattern_eq dispatch_def apply_updates_simps run_effects_fields)
  then have l: "id_p (last (patterns (dispatch addPattern st))) = toString (nextId st)"
    by simp
  from add_then_remove [OF reachable_ids [OF assms], of eng] a l show ?thesis
    by simp
qed

text \<open>The first render: a third entry is added and removed again.\<close>

theorem add_remove_roundtrip_witness:
  "reachable (initial_state :: handle app_state) \<and>
   patterns (dispatch addPattern (initial_state :: handle app_state))
     = [\<lparr> id_p = ''1'', pattern = ''bd sd [~ bd] sd'', name = ''Kick & Snare'' \<rparr>,
        \<lparr> id_p = ''2'', pattern = ''hh*8'', name = ''Hi-hats'' \<rparr>,
        \<lparr> id_p = ''3'', pattern = '''', name = ''Pattern 3'' \<rparr>] \<and>
   patterns (dispatch (removePattern ok_engine ''3'') (dispatch addPattern initial_state))
     = [\<lparr> id_p = ''1'', pattern = ''bd sd [~ bd] sd'', name = ''Kick & Snare'' \<rparr>,
        \<lparr> id_p = ''2'', pattern = ''hh*8'', name = ''Hi-hats'' \<rparr>]"
proof -
  have n: "nextId (initial_state :: handle app_state) = 3"
    and ps: "patterns (initial_state :: handle app_state)
     = [\<lparr> id_p = ''1'', pattern = ''bd sd [~ bd] sd'', name = ''Kick & Snare'' \<rparr>,
        \<lparr> id_p = ''2'', pattern = ''hh*8'', name = ''Hi-hats'' \<rparr>]"
    by (simp_all add: initial_state_def)
  have r: "reachable (initial_state :: handle app_state)"
    by (rule reachable.init)
  show ?thesis
    using r add_remove_roundtrip [OF r, of ok_engine]
    by (auto simp: n ps toString_small)
qed

subsection \<open>The session invariant\<close>

lemma playAll_session:
  "session_inv st \<Longrightarrow> session_inv (dispatch (playAll eng) st)"
proof (cases "filter (\<lambda>p. truthy (trim (pattern p))) (patternsRef st) = []")
  case True
  then show "session_inv st \<Longrightarrow> ?thesis"
    by (simp add: session_inv_def playAll_none dispatch_def apply_updates_simps
          run_effects_fields)
next
  case False
  then show "session_inv st \<Longrightarrow> ?thesis"
    by (simp add: session_inv_def playAll_some dispatch_def apply_updates_simps
          run_effects_fields split: sum.splits)
qed

lemma stopAll_session: "session_inv (dispatch (stopAll eng) st)"
  by (simp add: session_inv_def stopAll_eq dispatch_def apply_updates_simps
        run_effects_fields)

lemma addPattern_session: "session_inv st \<Longrightarrow> session_inv (dispatch addPattern st)"
  by (simp add: session_inv_def addPattern_eq dispatch_def apply_updates_simps
        run_effects_fields)

lemma removePattern_session:
  "session_inv st \<Longrightarrow> session_inv (dispatch (removePattern eng i) st)"
  by (simp add: session_inv_def removePattern_eq stopAll_eq dispatch_def apply_updates_simps
        run_effects_fields)

lemma updatePattern_session:
  "session_inv st \<Longrightarrow> session_inv (dispatch (updatePattern i fld v) st)"
  by (simp add: session_inv_def updatePattern_eq dispatch_def apply_updates_simps
        run_effects_fields)

lemma setVolume_session:
  "session_inv st \<Longrightarrow> session_inv (dispatch (\<lambda>_. perform (SetVolume vs)) st)"
  by (simp add: session_inv_def perform_def dispatch_def apply_updates_simps
        run_effects_fields)

lemma reachable_session: "reachable st \<Longrightarrow> session_inv st"
proof (induction rule: reachable.induct)
  case init
  show ?case by (simp add: session_inv_def initial_state_def)
qed (simp_all add: playAll_session stopAll_session addPattern_session removePattern_session
       updatePattern_session setVolume_session)

lemma initial_valid:
  "\<not> (isPlaying (initial_state :: 'h app_state) \<or>
       length (filter (\<lambda>p. truthy (trim (pattern p)))
                 (patterns (initial_state :: 'h app_state))) = 0)"
  by (simp add: initial_state_def truthy_def trim_def isWhiteSpace_def)

text \<open>
  C10. Each callback, and the volume setter, takes a state in which a set playing flag
  comes with a session handle to another such state: \<^verbatim>\<open>playAll\<close> sets the handle and
  the flag together or neither, \<^verbatim>\<open>stopAll\<close> clears both, and the others call neither
  setter (\<^verbatim>\<open>removePattern\<close> only through \<^verbatim>\<open>stopAll\<close>). Hence in every state the page
  can be in, a set flag implies a handle.
\<close>

theorem session_invariant:
  "(session_inv st \<longrightarrow>
      session_inv (dispatch (playAll eng) st) \<and>
      session_inv (dispatch (stopAll eng) st) \<and>
      session_inv (dispatch addPattern st) \<and>
      session_inv (dispatch (removePattern eng i) st) \<and>
      session_inv (dispatch (updatePattern i fld v) st) \<and>
      session_inv (dispatch (\<lambda>_. perform (SetVolume vs)) st)) \<and>
   (reachable st \<longrightarrow> (isPlaying st \<longrightarrow> combinedPattern st \<noteq> None))"
  using reachable_session [of st]
  by (simp add: playAll_session stopAll_session addPattern_session removePattern_session
        updatePattern_session setVolume_session)
     (simp add: session_inv_def)

text \<open>The state after the first click on play: playing, with its handle.\<close>

theorem session_invariant_witness:
  "reachable (dispatch (playAll ok_engine) initial_state) \<and>
   isPlaying (dispatch (playAll ok_engine) initial_state) \<and>
   combinedPattern (dispatch (playAll ok_engine) initial_state)
     = Some (Gained (Compiled ''bd sd [~ bd] sd, hh*8'') (Some 0.7))"
proof -
  have r: "reachable (dispatch (playAll ok_engine) initial_state)"
    by (rule reachable.click_play [OF reachable.init initial_valid])
  have v: "filter (\<lambda>p. truthy (trim (pattern p)))
             (patternsRef (initial_state :: handle app_state)) \<noteq> []"
    by (simp add: initial_state_def truthy_def trim_def isWhiteSpace_def)
  have t: "combinedText (patternsRef (initial_state :: handle app_state))
             = ''bd sd [~ bd] sd, hh*8''"
    by (simp add: combinedText_def initial_state_def truthy_def trim_def isWhiteSpace_def)
  have p: "playAll ok_engine initial_state =
     ([Call_s ''bd sd [~ bd] sd, hh*8'',
       Call_gain (Compiled ''bd sd [~ bd] sd, hh*8'') (Some 0.7),
       Call_play (Gained (Compiled ''bd sd [~ bd] sd, hh*8'') (Some 0.7)),
       SetCombinedPattern (Some (Gained (Compiled ''bd sd [~ bd] sd, hh*8'') (Some 0.7))),
       SetIsPlaying True], Inr ())"
    by (simp add: playAll_some [OF v] t ok_engine_def) (simp add: initial_state_def)
  show ?thesis
    using r session_invariant [of "dispatch (playAll ok_engine) initial_state"]
    by (simp add: p dispatch_def apply_updates_simps run_effects_fields)
qed

section \<open>Properties of the visualizer\<close>

lemma upt_3: "[0..<3] = [0, 1, 2]"
  by (simp add: upt_rec)

lemma upt_4: "[0..<4] = [0, 1, 2, 3]"
  by (simp add: upt_rec)

text \<open>A time inside the visible window is its own remainder.\<close>

lemma js_rem_small:
  assumes "0 \<le> a" "a < b"
  shows "js_rem a b = a"
proof -
  have "0 \<le> a / b" "a / b < 1"
    using assms by simp_all
  then have "\<lfloor>a / b\<rfloor> = 0"
    by (simp add: floor_eq_iff)
  with \<open>0 \<le> a / b\<close> show ?thesis
    by (simp add: js_rem_def)
qed

lemma uniq_example: "uniq (map value_e example_events) = [''bd'', ''sd'', ''hh'']"
  by (simp add: example_events_def)

text \<open>
  C8. With an empty event list, whatever the playing flag, the time and the size, the
  routine writes the placeholder text once and four sample bars, and nothing else: no
  grid line, no track, no event, no playhead (no path operation at all).
\<close>

theorem draw_no_events:
  "drawCustomVisualization playing [] time width height =
     [SetFillStyle (Css ''#6b7280''), SetFont ''16px monospace'', SetTextAlign ''center'',
      FillText ''No pattern data available'' (width / 2) (height / 2),
      SetFillStyle (Rgba 139 92 246 0.3),
      FillRect 10 (height * 0.7) (width / 4 - 20) 20,
      SetFillStyle (Rgba 139 92 246 0.4),
      FillRect (width / 4 + 10) (height * 0.7) (width / 4 - 20) 20,
      SetFillStyle (Rgba 139 92 246 0.5),
      FillRect (2 * (width / 4) + 10) (height * 0.7) (width / 4 - 20) 20,
      SetFillStyle (Rgba 139 92 246 0.6),
      FillRect (3 * (width / 4) + 10) (height * 0.7) (width / 4 - 20) 20] \<and>
   length (filter is_fillRect (drawCustomVisualization playing [] time width height)) = 4 \<and>
   filter is_fillText (drawCustomVisualization playing [] time width height)
     = [FillText ''No pattern data available'' (width / 2) (height / 2)] \<and>
   filter is_path_op (drawCustomVisualization playing [] time width height) = []"
  by (simp add: drawCustomVisualization_def upt_4)

text \<open>An 800 by 300 canvas while playing.\<close>

theorem draw_no_events_witness:
  "drawCustomVisualization True [] 0.05 800 300 =
     [SetFillStyle (Css ''#6b7280''), SetFont ''16px monospace'', SetTextAlign ''center'',
      FillText ''No pattern data available'' 400 150,
      SetFillStyle (Rgba 139 92 246 0.3), FillRect 10 210 180 20,
      SetFillStyle (Rgba 139 92 246 0.4), FillRect 210 210 180 20,
      SetFillStyle (Rgba 139 92 246 0.5), FillRect 410 210 180 20,
      SetFillStyle (Rgba 139 92 246 0.6), FillRect 610 210 180 20]"
  using draw_no_events [of True "0.05" 800 300]
  by simp

text \<open>
  C9. For the events at times 0 (\<^verbatim>\<open>bd\<close>), 1 (\<^verbatim>\<open>sd\<close>) and 0.5 (\<^verbatim>\<open>hh\<close>), time 0.05
  and the playing flag set: the first event is active and the other two are not (their
  distances from the current time are 0.05, 0.95 and 0.45, and the window is 0.1). The
  active event is drawn with a shadow of its colour, blur 10 and the plain colour; the
  others with no blur and the colour followed by \<^verbatim>\<open>80\<close>. Each track draws its one
  event in the track's colour, and the whole drawing is the grid, the three tracks and
  the playhead. The distances are far from the window's edge compared with the rounding
  of double precision, so the comparison comes out the same on JavaScript numbers.
\<close>

theorem example_highlight:
  "isActive True 0.05 (example_events ! 0) \<and>
   \<not> isActive True 0.05 (example_events ! 1) \<and>
   \<not> isActive True 0.05 (example_events ! 2) \<and>
   drawEvent True 0.05 timeScale trackHeight y color (example_events ! 0) =
     [SetShadowColor color, SetShadowBlur 10, SetFillStyle (Css color),
      FillRect 0 (y + trackHeight * 0.3) (max 12 (timeScale / 8)) (trackHeight * 0.5),
      SetShadowBlur 0] \<and>
   drawEvent True 0.05 timeScale trackHeight y color (example_events ! 1) =
     [SetShadowBlur 0, SetFillStyle (Css (color @ ''80'')),
      FillRect timeScale (y + trackHeight * 0.3) (max 12 (timeScale / 8)) (trackHeight * 0.5),
      SetShadowBlur 0] \<and>
   drawEvent True 0.05 timeScale trackHeight y color (example_events ! 2) =
     [SetShadowBlur 0, SetFillStyle (Css (color @ ''80'')),
      FillRect (0.5 * timeScale) (y + trackHeight * 0.3) (max 12 (timeScale / 8))
        (trackHeight * 0.5),
      SetShadowBlur 0] \<and>
   drawTrack True example_events 0.05 width timeScale trackHeight ''bd'' 0 =
     [SetFillStyle (Css ''rgba(255, 255, 255, 0.05)''), FillRect 0 0 width (trackHeight - 2),
      SetFillStyle (Css ''#d1d5db''), SetFont ''14px monospace'', SetTextAlign ''left'',
      FillText ''bd'' 8 25]
     @ drawEvent True 0.05 timeScale trackHeight 0 ''#8b5cf6'' (example_events ! 0) \<and>
   drawTrack True example_events 0.05 width timeScale trackHeight ''sd'' 1 =
     [SetFillStyle (Css ''rgba(255, 255, 255, 0.05)''),
      FillRect 0 trackHeight width (trackHeight - 2),
      SetFillStyle (Css ''#d1d5db''), SetFont ''14px monospace'', SetTextAlign ''left'',
      FillText ''sd'' 8 (trackHeight + 25)]
     @ drawEvent True 0.05 timeScale trackHeight trackHeight ''#06b6d4'' (example_events ! 1) \<and>
   drawTrack True example_events 0.05 width timeScale trackHeight ''hh'' 2 =
     [SetFillStyle (Css ''rgba(255, 255, 255, 0.05)''),
      FillRect 0 (2 * trackHeight) width (trackHeight - 2),
      SetFillStyle (Css ''#d1d5db''), SetFont ''14px monospace'', SetTextAlign ''left'',
      FillText ''hh'' 8 (2 * trackHeight + 25)]
     @ drawEvent True 0.05 timeScale trackHeight (2 * trackHeight) ''#10b981''
         (example_events ! 2) \<and>
   drawCustomVisualization True example_events 0.05 width height =
     [SetStrokeStyle (Css ''rgba(255, 255, 255, 0.1)''), SetLineWidth 1]
     @ concat (map (\<lambda>i. [BeginPath, MoveTo (real i * (width / 4)) 0,
                           LineTo (real i * (width / 4)) height, Stroke]) [0..<5])
     @ [SetStrokeStyle (Css ''rgba(255, 255, 255, 0.05)'')]
     @ concat (map (\<lambda>i. [BeginPath, MoveTo (real i * (width / 16)) 0,
                           LineTo (real i * (width / 16)) height, Stroke]) [0..<16])
     @ drawTrack True example_events 0.05 width (width / 4) (max 40 (height / 3)) ''bd'' 0
     @ drawTrack True example_events 0.05 width (width / 4) (max 40 (height / 3)) ''sd'' 1
     @ drawTrack True example_events 0.05 width (width / 4) (max 40 (height / 3)) ''hh'' 2
     @ drawPlayhead 0.05 (width / 4) height"
proof -
  have active:
    "isActive True 0.05 (example_events ! 0)"
    "\<not> isActive True 0.05 (example_events ! 1)"
    "\<not> isActive True 0.05 (example_events ! 2)"
    by (simp_all add: isActive_def example_events_def js_rem_small beatsVisible_def)
  have events:
    "drawEvent True 0.05 timeScale trackHeight y color (example_events ! 0) =
     [SetShadowColor color, SetShadowBlur 10, SetFillStyle (Css color),
      FillRect 0 (y + trackHeight * 0.3) (max 12 (timeScale / 8)) (trackHeight * 0.5),
      SetShadowBlur 0]"
    "drawEvent True 0.05 timeScale trackHeight y color (example_events ! 1) =
     [SetShadowBlur 0, SetFillStyle (Css (color @ ''80'')),
      FillRect timeScale (y + trackHeight * 0.3) (max 12 (timeScale / 8)) (trackHeight * 0.5),
      SetShadowBlur 0]"
    "drawEvent True 0.05 timeScale trackHeight y color (example_events ! 2) =
     [SetShadowBlur 0, SetFillStyle (Css (color @ ''80'')),
      FillRect (0.5 * timeScale) (y + trackHeight * 0.3) (max 12 (timeScale / 8))
        (trackHeight * 0.5),
      SetShadowBlur 0]"
    using active
    by (simp_all add: drawEvent_def)
       (simp_all add: example_events_def js_rem_small beatsVisible_def)
  have tracks:
    "drawTrack True example_events 0.05 width timeScale trackHeight ''bd'' 0 =
     [SetFillStyle (Css ''rgba(255, 255, 255, 0.05)''), FillRect 0 0 width (trackHeight - 2),
      SetFillStyle (Css ''#d1d5db''), SetFont ''14px monospace'', SetTextAlign ''left'',
      FillText ''bd'' 8 25]
     @ drawEvent True 0.05 timeScale trackHeight 0 ''#8b5cf6'' (example_events ! 0)"
    "drawTrack True example_events 0.05 width timeScale trackHeight ''sd'' 1 =
     [SetFillStyle (Css ''rgba(255, 255, 255, 0.05)''),
      FillRect 0 trackHeight width (trackHeight - 2),
      SetFillStyle (Css ''#d1d5db''), SetFont ''14px monospace'', SetTextAlign ''left'',
      FillText ''sd'' 8 (trackHeight + 25)]
     @ drawEvent True 0.05 timeScale trackHeight trackHeight ''#06b6d4'' (example_events ! 1)"
    "drawTrack True example_events 0.05 width timeScale trackHeight ''hh'' 2 =
     [SetFillStyle (Css ''rgba(255, 255, 255, 0.05)''),
      FillRect 0 (2 * trackHeight) width (trackHeight - 2),
      SetFillStyle (Css ''#d1d5db''), SetFont ''14px monospace'', SetTextAlign ''left'',
      FillText ''hh'' 8 (2 * trackHeight + 25)]
     @ drawEvent True 0.05 timeScale trackHeight (2 * trackHeight) ''#10b981''
         (example_events ! 2)"
    by (simp_all add: drawTrack_def Let_def colors_def example_events_def)
  have whole: "drawCustomVisualization True example_events 0.05 width height =
     [SetStrokeStyle (Css ''rgba(255, 255, 255, 0.1)''), SetLineWidth 1]
     @ concat (map (\<lambda>i. [BeginPath, MoveTo (real i * (width / 4)) 0,
                           LineTo (real i * (width / 4)) height, Stroke]) [0..<5])
     @ [SetStrokeStyle (Css ''rgba(255, 255, 255, 0.05)'')]
     @ concat (map (\<lambda>i. [BeginPath, MoveTo (real i * (width / 16)) 0,
                           LineTo (real i * (width / 16)) height, Stroke]) [0..<16])
     @ drawTrack True example_events 0.05 width (width / 4) (max 40 (height / 3)) ''bd'' 0
     @ drawTrack True example_events 0.05 width (width / 4) (max 40 (height / 3)) ''sd'' 1
     @ drawTrack True example_events 0.05 width (width / 4) (max 40 (height / 3)) ''hh'' 2
     @ drawPlayhead 0.05 (width / 4) height"
  proof -
    have ne: "length example_events \<noteq> 0"
      by (simp add: example_events_def)
    show ?thesis
      unfolding drawCustomVisualization_def Let_def uniq_example
      by (simp only: ne if_False) (simp add: beatsVisible_def upt_3 numeral_2_eq_2)
  qed
  from active events tracks whole show ?thesis
    by (intro conjI)
qed

text \<open>The three tracks on an 800 by 300 canvas: time scale 200, track height 100.\<close>

theorem example_highlight_witness:
  "drawTrack True example_events 0.05 800 200 100 ''bd'' 0 =
     [SetFillStyle (Css ''rgba(255, 255, 255, 0.05)''), FillRect 0 0 800 98,
      SetFillStyle (Css ''#d1d5db''), SetFont ''14px monospace'', SetTextAlign ''left'',
      FillText ''bd'' 8 25,
      SetShadowColor ''#8b5cf6'', SetShadowBlur 10, SetFillStyle (Css ''#8b5cf6''),
      FillRect 0 30 25 50, SetShadowBlur 0] \<and>
   drawTrack True example_events 0.05 800 200 100 ''sd'' 1 =
     [SetFillStyle (Css ''rgba(255, 255, 255, 0.05)''), FillRect 0 100 800 98,
      SetFillStyle (Css ''#d1d5db''), SetFont ''14px monospace'', SetTextAlign ''left'',
      FillText ''sd'' 8 125,
      SetShadowBlur 0, SetFillStyle (Css ''#06b6d480''),
      FillRect 200 130 25 50, SetShadowBlur 0] \<and>
   drawTrack True example_events 0.05 800 200 100 ''hh'' 2 =
     [SetFillStyle (Css ''rgba(255, 255, 255, 0.05)''), FillRect 0 200 800 98,
      SetFillStyle (Css ''#d1d5db''), SetFont ''14px monospace'', SetTextAlign ''left'',
      FillText ''hh'' 8 225,
      SetShadowBlur 0, SetFillStyle (Css ''#10b98180''),
      FillRect 100 230 25 50, SetShadowBlur 0]"
  using example_highlight [of 200 100 0 "''#8b5cf6''" 800 300]
    example_highlight [of 200 100 100 "''#06b6d4''" 800 300]
    example_highlight [of 200 100 200 "''#10b981''" 800 300]
  by simp

end
